theory Spec2Isabelle
  imports Main "HOL-Library.AList"
begin

section \<open>Values, strings and dictionaries\<close>

text \<open>
  A Python \<open>str\<close> is modelled by the bytes of its UTF-8 encoding, so that a \<open>string\<close>
  here is what \<open>s.encode("utf-8")\<close> gives in the source. Concatenation commutes with that
  encoding, and percent-encoding works on exactly these bytes.

  \<open>pyval\<close> stands for the request and response bodies (what \<open>json=data\<close> accepts and what
  the parsed response is) and for the argument of \<open>insert\<close>; tuples are kept apart from
  lists because \<open>insert\<close> tests \<open>type(data) is not list\<close>.
\<close>

datatype pyval =
    PNone
  | PBool bool
  | PInt int
  | PStr string
  | PList "pyval list"
  | PTuple "pyval list"
  | PDict "(string \<times> pyval) list"

text \<open>
  The values of a filter mapping (\<open>target\<close> of \<open>update\<close> and \<open>delete\<close>) are formatted
  with \<open>str\<close>; they range over strings, integers, booleans and \<open>None\<close>. The keys are
  column names, that is strings. A mapping is the list of its items in insertion order,
  which is the order \<open>target.items()\<close> yields.
\<close>

datatype atom = AStr string | AInt int | ABool bool | ANone

type_synonym filters = "(string \<times> atom) list"

definition digit :: "nat \<Rightarrow> char" where
  "digit n = ''0123456789'' ! n"

fun decimal :: "nat \<Rightarrow> string" where
  "decimal n = (if n < 10 then [digit n] else decimal (n div 10) @ [digit (n mod 10)])"

definition str_int :: "int \<Rightarrow> string" where
  "str_int i = (if i < 0 then ''-'' @ decimal (nat (- i)) else decimal (nat i))"

fun str :: "atom \<Rightarrow> string" where
  "str (AStr s) = s"
| "str (AInt i) = str_int i"
| "str (ABool b) = (if b then ''True'' else ''False'')"
| "str ANone = ''None''"

text \<open>\<open>sep.join(parts)\<close> of Python.\<close>

fun join :: "string \<Rightarrow> string list \<Rightarrow> string" where
  "join sep [] = []"
| "join sep [x] = x"
| "join sep (x # y # ys) = x @ sep @ join sep (y # ys)"

subsection \<open>\<open>urllib.parse.urlencode\<close>\<close>

text \<open>
  The standard library's \<open>urlencode(query)\<close> on a mapping, with its defaults
  (\<open>doseq=False\<close>, \<open>safe=''\<close>, \<open>quote_via=quote_plus\<close>): every key and value is passed
  through \<open>str\<close> and \<open>quote_plus\<close>, the terms \<open>k=v\<close> are joined by \<open>&\<close>.
  \<open>quote_plus\<close> keeps the unreserved bytes (letters, digits, \<open>_.-~\<close>), writes a space
  as \<open>+\<close> and every other byte as \<open>%XX\<close> with upper-case hexadecimal digits.
\<close>

definition always_safe :: "char \<Rightarrow> bool" where
  "always_safe c \<longleftrightarrow>
     c \<in> set ''ABCDEFGHIJKLMNOPQRSTUVWXYZabcdefghijklmnopqrstuvwxyz0123456789_.-~''"

definition hexdigit :: "nat \<Rightarrow> char" where
  "hexdigit n = ''0123456789ABCDEF'' ! n"

definition quote_byte :: "char \<Rightarrow> string" where
  "quote_byte c =
     (if always_safe c then [c]
      else if c = CHR '' '' then ''+''
      else [CHR ''%'', hexdigit ((of_char c :: nat) div 16), hexdigit ((of_char c :: nat) mod 16)])"

definition quote_plus :: "string \<Rightarrow> string" where
  "quote_plus s = concat (map quote_byte s)"

definition urlencode :: "filters \<Rightarrow> string" where
  "urlencode query = join ''&'' (map (\<lambda>(k, v). quote_plus k @ ''='' @ quote_plus (str v)) query)"

subsection \<open>Dictionary objects\<close>

text \<open>
  The header dictionaries are mutable objects that the client and its callers may share,
  so they live in a store: a reference is an index into the list of allocated
  dictionaries. \<open>d.copy()\<close> allocates a new object, \<open>d.update(other)\<close> changes the object
  in place, entry by entry, keeping the position of a key that is already present.
\<close>

type_synonym dict = "(string \<times> string) list"
type_synonym ref = nat
type_synonym store = "dict list"

definition deref :: "store \<Rightarrow> ref \<Rightarrow> dict" where
  "deref h a = (if a < length h then h ! a else [])"

definition dict_copy :: "store \<Rightarrow> ref \<Rightarrow> ref \<times> store" where
  "dict_copy h a = (length h, h @ [deref h a])"

definition dict_update :: "store \<Rightarrow> ref \<Rightarrow> dict \<Rightarrow> store" where
  "dict_update h a other =
     (if a < length h then h[a := foldl (\<lambda>d (k, v). AList.update k v d) (h ! a) other] else h)"

section \<open>The HTTP layer\<close>

text \<open>
  \<open>HTTPClient\<close> (module \<open>_http_client\<close>) is an external collaborator: given a URL, the
  headers, a verb and an optional JSON body it yields a status code and the parsed body.
  It is a parameter of every operation. Entering the session and \<open>session.requests\<close>
  either come back with a response, or fail with \<open>aiohttp.ClientConnectorError\<close> (whose
  \<open>str(err)\<close> is the message kept here), or fail with some other exception.
\<close>

record request =
  req_url :: string
  req_headers :: dict
  req_verb :: string
  req_json :: "pyval option"

datatype reply =
    Response int pyval
  | ConnectorFailure string
  | OtherFailure string

type_synonym transport = "request \<Rightarrow> reply"

section \<open>Errors and results\<close>

datatype exn =
    UnexpectedValueTypeError string
  | ClientConnectorError string
  | SupabaseError pyval
  | Propagated string

text \<open>
  The named tuple \<open>Error = namedtuple("SupabaseError", ("error", "data", "status"))\<close>,
  its three fields in that order.
\<close>

datatype error_tuple = Error exn pyval int

text \<open>
  What awaiting a call evaluates to: \<open>None\<close>, the pair \<open>(error, json_data)\<close>, or the
  coroutine object of a call \<open>self.query()\<close> that has been created but not awaited.
\<close>

datatype result =
    RNone
  | RPair "error_tuple option" pyval
  | RCoroutine

datatype outcome = Returns result | Raises exn

section \<open>TableClient\<close>

record client =
  base_url :: string
  name :: string
  headers :: ref
  success_status_codes :: "int list"
  raise_error :: bool
  as_url :: "string option"

text \<open>
  The state an operation runs in: the dictionary objects, the attributes of the client
  (\<open>self\<close>) and the requests handed to the HTTP layer so far, oldest first.
\<close>

record world =
  objs :: store
  this :: client
  wire :: "request list"

text \<open>
  Modelled from the spec: \<open>TableQueryBuilder.__init__\<close> (module \<open>querybuilders\<close>) is not
  among the sources. The builder's state is created fresh, with no accumulated URL, so
  \<open>super().__init__(self.base_url)\<close> leaves \<open>_as_url\<close> empty.
\<close>

definition TableClient :: "string \<Rightarrow> string \<Rightarrow> ref \<Rightarrow> bool \<Rightarrow> client" where
  "TableClient api_url table_name hdrs raise =
     \<lparr> base_url = api_url @ ''/'' @ table_name,
       name = table_name,
       headers = hdrs,
       success_status_codes = [200..299],
       raise_error = raise,
       as_url = None \<rparr>"

definition is_ok :: "client \<Rightarrow> int \<Rightarrow> bool" where
  "is_ok self st \<longleftrightarrow> st \<in> set (success_status_codes self)"

text \<open>The method \<open>_error\<close>: \<open>Inl\<close> is the raised exception, \<open>Inr\<close> the returned value.\<close>

definition error_of :: "client \<Rightarrow> int \<Rightarrow> pyval \<Rightarrow> exn + error_tuple option" where
  "error_of self st json_data =
     (if \<not> is_ok self st then
        (let err = SupabaseError json_data in
         if raise_error self then Inl err
         else Inr (Some (Error err json_data st)))
      else Inr None)"

text \<open>
  The block that each requesting method repeats:
  \<^verbatim>\<open>
  try:
      async with HTTPClient(endpoint, headers=headers) as session:
          response, json_data = await session.requests(verb, json=data)
          return self._error(response, json_data), json_data
  except aiohttp.ClientConnectorError as err:
      raise ClientConnectorError(str(err))
  \<close>
  A \<open>SupabaseError\<close> raised by \<open>_error\<close> is not caught by the \<open>except\<close> clause, nor is any
  other exception of the HTTP layer.
\<close>

definition send :: "transport \<Rightarrow> world \<Rightarrow> request \<Rightarrow> outcome \<times> world" where
  "send t w rq =
     (let w' = w\<lparr>wire := wire w @ [rq]\<rparr> in
      case t rq of
        ConnectorFailure msg \<Rightarrow> (Raises (ClientConnectorError msg), w')
      | OtherFailure msg \<Rightarrow> (Raises (Propagated msg), w')
      | Response st json_data \<Rightarrow>
          (case error_of (this w') st json_data of
             Inl e \<Rightarrow> (Raises e, w')
           | Inr r \<Rightarrow> (Returns (RPair r json_data), w')))"

definition update_op :: "transport \<Rightarrow> world \<Rightarrow> filters \<Rightarrow> pyval \<Rightarrow> outcome \<times> world" where
  "update_op t w target data =
     (let (hr, h1) = dict_copy (objs w) (headers (this w));
          h2 = dict_update h1 hr [(''Prefer'', ''return=representation'')];
          w1 = w\<lparr>objs := h2\<rparr>;
          endpoint = base_url (this w1) @ ''?'' @ urlencode target
      in send t w1 \<lparr> req_url = endpoint, req_headers = deref h2 hr,
                     req_verb = ''PATCH'', req_json = Some data \<rparr>)"

fun is_list :: "pyval \<Rightarrow> bool" where
  "is_list (PList rows) = True"
| "is_list _ = False"

definition insert_op :: "transport \<Rightarrow> world \<Rightarrow> pyval \<Rightarrow> outcome \<times> world" where
  "insert_op t w data =
     (if \<not> is_list data then
        (Raises (UnexpectedValueTypeError ''Expected a list for: `value`''), w)
      else
        (let (hr, h1) = dict_copy (objs w) (headers (this w));
             h2 = dict_update h1 hr [(''Prefer'', ''return=representation'')];
             w1 = w\<lparr>objs := h2\<rparr>;
             endpoint = base_url (this w1)
         in send t w1 \<lparr> req_url = endpoint, req_headers = deref h2 hr,
                        req_verb = ''POST'', req_json = Some data \<rparr>))"

definition delete_op :: "transport \<Rightarrow> world \<Rightarrow> filters \<Rightarrow> outcome \<times> world" where
  "delete_op t w target =
     (let endpoint0 = base_url (this w) @ ''?'';
          endpoint1 = foldl (\<lambda>e (k, v). e @ (k @ ''='' @ str v @ ''&'')) endpoint0 target;
          endpoint = butlast endpoint1
      in send t w \<lparr> req_url = endpoint, req_headers = deref (objs w) (headers (this w)),
                    req_verb = ''DELETE'', req_json = None \<rparr>)"

definition customqeury :: "transport \<Rightarrow> world \<Rightarrow> string \<Rightarrow> outcome \<times> world" where
  "customqeury t w data =
     (let url = base_url (this w) @ ''?'' @ data
      in send t w \<lparr> req_url = url, req_headers = deref (objs w) (headers (this w)),
                    req_verb = ''GET'', req_json = None \<rparr>)"

definition query :: "transport \<Rightarrow> world \<Rightarrow> outcome \<times> world" where
  "query t w =
     (case as_url (this w) of
        None \<Rightarrow> (Returns RNone, w)
      | Some u \<Rightarrow>
          (if u \<noteq> [] then
             send t w \<lparr> req_url = u, req_headers = deref (objs w) (headers (this w)),
                        req_verb = ''GET'', req_json = None \<rparr>
           else (Returns RNone, w)))"

text \<open>
  Modelled from the spec: \<open>TableQueryBuilder.select\<close> (module \<open>querybuilders\<close>) is not among
  the sources. The builder is described as stateless beyond the accumulated fragment, and
  each chainable method returns the builder itself; \<open>select\<close> therefore replaces the
  accumulated URL of \<open>self\<close> and nothing else. How the URL is rendered from the client and
  the row is left open, as the parameter \<open>render\<close>.
\<close>

type_synonym renderer = "client \<Rightarrow> string \<Rightarrow> string option"

definition select :: "renderer \<Rightarrow> world \<Rightarrow> string \<Rightarrow> world" where
  "select render w row = w\<lparr>this := (this w)\<lparr>as_url := render (this w) row\<rparr>\<rparr>"

text \<open>
  \<open>get\<close> is \<open>return self.select(row).query()\<close>: \<open>query\<close> is a coroutine function, its call
  is not awaited, and so the value of \<open>await client.get(row)\<close> is the coroutine object.
  No request is made until that object is awaited in turn, which is \<open>resume\<close>.
\<close>

definition get :: "renderer \<Rightarrow> world \<Rightarrow> string \<Rightarrow> outcome \<times> world" where
  "get render w row = (Returns RCoroutine, select render w row)"

definition resume :: "transport \<Rightarrow> world \<Rightarrow> outcome \<times> world" where
  "resume t w = query t w"

text \<open>The six operations of the client, and one call of any of them.\<close>

datatype call =
    Get string
  | Insert pyval
  | Update filters pyval
  | Delete filters
  | CustomQuery string
  | Query

fun run :: "transport \<Rightarrow> renderer \<Rightarrow> world \<Rightarrow> call \<Rightarrow> outcome \<times> world" where
  "run t render w (Get row) = get render w row"
| "run t render w (Insert data) = insert_op t w data"
| "run t render w (Update target data) = update_op t w target data"
| "run t render w (Delete target) = delete_op t w target"
| "run t render w (CustomQuery data) = customqeury t w data"
| "run t render w Query = query t w"

text \<open>The header \<open>Prefer: return=representation\<close> set in a dictionary.\<close>

abbreviation prefer_representation :: "dict \<Rightarrow> dict" where
  "prefer_representation d \<equiv> AList.update ''Prefer'' ''return=representation'' d"

text \<open>
  The specification's word for the argument \<open>insert\<close> accepts is a sequence. The
  sequence types of Python among the values here are lists, tuples and strings.
\<close>

fun spec_is_sequence :: "pyval \<Rightarrow> bool" where
  "spec_is_sequence (PList xs) = True"
| "spec_is_sequence (PTuple xs) = True"
| "spec_is_sequence (PStr s) = True"
| "spec_is_sequence _ = False"

subsection \<open>A client, a server and a renderer to compute with\<close>

text \<open>
  The client of the class's docstring, its header dictionary the only object allocated,
  with the error toggle and the accumulated URL left open; a server that answers every
  request alike; a server that cannot be reached; and a renderer for \<open>select\<close>.
\<close>

definition docstring_headers :: dict where
  "docstring_headers = [(''apiKey'', ''SUPABASE_API_KEY''), (''Authorization'', ''SUPABASE_API_KEY'')]"

definition docstring_world :: "bool \<Rightarrow> string option \<Rightarrow> world" where
  "docstring_world raise u =
     \<lparr> objs = [docstring_headers],
       this = (TableClient ''http://app-name.supabase.co'' ''posts'' 0 raise)\<lparr>as_url := u\<rparr>,
       wire = [] \<rparr>"

definition answering :: "int \<Rightarrow> pyval \<Rightarrow> transport" where
  "answering st body = (\<lambda>rq. Response st body)"

definition unreachable :: "string \<Rightarrow> transport" where
  "unreachable msg = (\<lambda>rq. ConnectorFailure msg)"

definition select_equals :: renderer where
  "select_equals self row = Some (base_url self @ ''?select='' @ row)"

section \<open>Requests and their outcomes\<close>

lemma send_world: "snd (send t w rq) = w\<lparr>wire := wire w @ [rq]\<rparr>"
  by (simp add: send_def Let_def split: reply.split sum.split)

lemma send_outcome:
  "fst (send t w rq) =
     (case t rq of
        ConnectorFailure msg \<Rightarrow> Raises (ClientConnectorError msg)
      | OtherFailure msg \<Rightarrow> Raises (Propagated msg)
      | Response st json_data \<Rightarrow>
          (case error_of (this w) st json_data of
             Inl e \<Rightarrow> Raises e
           | Inr r \<Rightarrow> Returns (RPair r json_data)))"
  by (simp add: send_def Let_def split: reply.split sum.split)

text \<open>
  \<open>insert\<close> and \<open>update\<close> copy the stored dictionary to a new object, extend the copy
  and send it; the copy stays allocated.
\<close>

lemma update_op_send:
  "update_op t w target data =
     send t (w\<lparr>objs := objs w @ [prefer_representation (deref (objs w) (headers (this w)))]\<rparr>)
       \<lparr> req_url = base_url (this w) @ ''?'' @ urlencode target,
         req_headers = prefer_representation (deref (objs w) (headers (this w))),
         req_verb = ''PATCH'', req_json = Some data \<rparr>"
  by (simp add: update_op_def dict_copy_def dict_update_def deref_def Let_def)

lemma insert_op_send:
  "is_list data \<Longrightarrow> insert_op t w data =
     send t (w\<lparr>objs := objs w @ [prefer_representation (deref (objs w) (headers (this w)))]\<rparr>)
       \<lparr> req_url = base_url (this w),
         req_headers = prefer_representation (deref (objs w) (headers (this w))),
         req_verb = ''POST'', req_json = Some data \<rparr>"
  by (simp add: insert_op_def dict_copy_def dict_update_def deref_def Let_def)

text \<open>The status codes of a client made by the constructor are \<open>range(200, 300)\<close>.\<close>

lemma is_ok_constructed:
  "is_ok ((TableClient api_url table_name hr raise)\<lparr>as_url := u\<rparr>) st \<longleftrightarrow> 200 \<le> st \<and> st < 300"
  by (auto simp add: is_ok_def TableClient_def simp del: upto_rec_numeral)

lemma error_of_constructed:
  "error_of ((TableClient api_url table_name hr raise)\<lparr>as_url := u\<rparr>) st body =
     (if 200 \<le> st \<and> st < 300 then Inr None
      else if raise then Inl (SupabaseError body)
      else Inr (Some (Error (SupabaseError body) body st)))"
  by (simp add: error_of_def is_ok_constructed Let_def) (simp add: TableClient_def)

text \<open>
  When a call has put the request \<open>rq\<close> on the wire, its outcome is decided by what the
  HTTP layer does with \<open>rq\<close> and by \<open>_error\<close>.
\<close>

lemma send_request:
  assumes "send t w1 rq0 = (out, w')" and "wire w' = wire w @ [rq]"
    and "wire w1 = wire w" and "this w1 = this w"
  shows "out =
     (case t rq of
        ConnectorFailure msg \<Rightarrow> Raises (ClientConnectorError msg)
      | OtherFailure msg \<Rightarrow> Raises (Propagated msg)
      | Response st json_data \<Rightarrow>
          (case error_of (this w) st json_data of
             Inl e \<Rightarrow> Raises e
           | Inr r \<Rightarrow> Returns (RPair r json_data)))"
proof -
  from assms(1) have "w' = snd (send t w1 rq0)" and out: "out = fst (send t w1 rq0)"
    by simp_all
  then have "wire w' = wire w1 @ [rq0]"
    by (simp add: send_world)
  with assms(2,3) have "rq0 = rq"
    by simp
  with out assms(4) show ?thesis
    by (simp add: send_outcome split: reply.split)
qed

lemma run_request:
  assumes "run t render w c = (out, w')" and "wire w' = wire w @ [rq]"
  shows "out =
     (case t rq of
        ConnectorFailure msg \<Rightarrow> Raises (ClientConnectorError msg)
      | OtherFailure msg \<Rightarrow> Raises (Propagated msg)
      | Response st json_data \<Rightarrow>
          (case error_of (this w) st json_data of
             Inl e \<Rightarrow> Raises e
           | Inr r \<Rightarrow> Returns (RPair r json_data)))"
proof (cases c)
  case (Get row)
  with assms show ?thesis
    by (auto simp: get_def select_def)
next
  case (Insert d)
  show ?thesis
  proof (cases "is_list d")
    case True
    with assms(1) Insert
    have "send t (w\<lparr>objs := objs w @ [prefer_representation (deref (objs w) (headers (this w)))]\<rparr>)
            \<lparr> req_url = base_url (this w),
              req_headers = prefer_representation (deref (objs w) (headers (this w))),
              req_verb = ''POST'', req_json = Some d \<rparr> = (out, w')"
      by (simp add: insert_op_send)
    then show ?thesis
      by (rule send_request) (simp_all add: assms(2))
  next
    case False
    with assms Insert show ?thesis
      by (auto simp: insert_op_def)
  qed
next
  case (Update f d)
  with assms(1)
  have "send t (w\<lparr>objs := objs w @ [prefer_representation (deref (objs w) (headers (this w)))]\<rparr>)
          \<lparr> req_url = base_url (this w) @ ''?'' @ urlencode f,
            req_headers = prefer_representation (deref (objs w) (headers (this w))),
            req_verb = ''PATCH'', req_json = Some d \<rparr> = (out, w')"
    by (simp add: update_op_send)
  then show ?thesis
    by (rule send_request) (simp_all add: assms(2))
next
  case (Delete f)
  with assms(1) have "delete_op t w f = (out, w')"
    by simp
  then show ?thesis
    unfolding delete_op_def Let_def
    by (rule send_request) (simp_all add: assms(2))
next
  case (CustomQuery s)
  with assms(1) have "customqeury t w s = (out, w')"
    by simp
  then show ?thesis
    unfolding customqeury_def Let_def
    by (rule send_request) (simp_all add: assms(2))
next
  case Query
  show ?thesis
  proof (cases "as_url (this w)")
    case None
    with assms Query show ?thesis
      by (auto simp: query_def)
  next
    case (Some u)
    show ?thesis
    proof (cases "u = []")
      case True
      with assms Query Some show ?thesis
        by (auto simp: query_def)
    next
      case False
      with assms(1) Query Some
      have "send t w \<lparr> req_url = u, req_headers = deref (objs w) (headers (this w)),
                        req_verb = ''GET'', req_json = None \<rparr> = (out, w')"
        by (simp add: query_def)
      then show ?thesis
        by (rule send_request) (simp_all add: assms(2))
    qed
  qed
qed

lemma run_response:
  assumes "this w = (TableClient api_url table_name hr raise)\<lparr>as_url := u\<rparr>"
    and "run t render w c = (out, w')"
    and "wire w' = wire w @ [rq]"
    and "t rq = Response st body"
  shows "out =
     (if 200 \<le> st \<and> st < 300 then Returns (RPair None body)
      else if raise then Raises (SupabaseError body)
      else Returns (RPair (Some (Error (SupabaseError body) body st)) body))"
  using run_request [OF assms(2,3)] assms(1,4)
  by (simp add: error_of_constructed)

text \<open>
  Which calls reach the HTTP layer: \<open>update\<close>, \<open>delete\<close> and \<open>customqeury\<close> always,
  \<open>insert\<close> when its argument is a list, \<open>query\<close> when a URL has been accumulated; each
  of them hands over exactly one request. \<open>get\<close> hands over none: the request of the
  coroutine it returns is made when that coroutine is awaited.
\<close>

lemma run_wire:
  "wire (snd (run t render w c)) = wire w @
     (case c of
        Get row \<Rightarrow> []
      | Insert data \<Rightarrow>
          (if is_list data then
             [\<lparr> req_url = base_url (this w),
                req_headers = prefer_representation (deref (objs w) (headers (this w))),
                req_verb = ''POST'', req_json = Some data \<rparr>]
           else [])
      | Update target data \<Rightarrow>
          [\<lparr> req_url = base_url (this w) @ ''?'' @ urlencode target,
             req_headers = prefer_representation (deref (objs w) (headers (this w))),
             req_verb = ''PATCH'', req_json = Some data \<rparr>]
      | Delete target \<Rightarrow>
          [\<lparr> req_url = butlast (foldl (\<lambda>e (k, v). e @ (k @ ''='' @ str v @ ''&''))
                                    (base_url (this w) @ ''?'') target),
             req_headers = deref (objs w) (headers (this w)),
             req_verb = ''DELETE'', req_json = None \<rparr>]
      | CustomQuery data \<Rightarrow>
          [\<lparr> req_url = base_url (this w) @ ''?'' @ data,
             req_headers = deref (objs w) (headers (this w)),
             req_verb = ''GET'', req_json = None \<rparr>]
      | Query \<Rightarrow>
          (case as_url (this w) of
             None \<Rightarrow> []
           | Some u \<Rightarrow>
               (if u \<noteq> [] then
                  [\<lparr> req_url = u, req_headers = deref (objs w) (headers (this w)),
                     req_verb = ''GET'', req_json = None \<rparr>]
                else [])))"
proof (cases c)
  case (Get row)
  then show ?thesis by (simp add: get_def select_def)
next
  case (Insert d)
  then show ?thesis
    by (cases "is_list d") (simp_all add: insert_op_send send_world, simp add: insert_op_def)
next
  case (Update f d)
  then show ?thesis by (simp add: update_op_send send_world)
next
  case (Delete f)
  then show ?thesis by (simp add: delete_op_def send_world Let_def)
next
  case (CustomQuery s)
  then show ?thesis by (simp add: customqeury_def send_world Let_def)
next
  case Query
  then show ?thesis by (simp add: query_def send_world split: option.split)
qed

section \<open>Classification of responses\<close>

text \<open>
  For a client made by the constructor and the response the HTTP layer gives to the request
  of a call: the response counts as successful exactly when its status code is at least
  200 and below 300; on success the call returns the pair of \<open>None\<close> and the parsed body;
  on a failure that is not raised it returns a pair whose first component is the \<open>Error\<close>
  tuple of the \<open>SupabaseError\<close> carrying the body, the body itself and the status code.
  This holds for the calls that put a request on the wire, which \<open>run_wire\<close> lists; a call
  of \<open>get\<close> is not among them.
\<close>

lemma sent_response_classification:
  assumes "this w = (TableClient api_url table_name hr raise)\<lparr>as_url := u\<rparr>"
    and "run t render w c = (out, w')"
    and "wire w' = wire w @ [rq]"
    and "t rq = Response st body"
  shows "(is_ok (this w) st \<longleftrightarrow> 200 \<le> st \<and> st < 300)
       \<and> (is_ok (this w) st \<longrightarrow> out = Returns (RPair None body))
       \<and> (\<not> is_ok (this w) st \<and> \<not> raise \<longrightarrow>
            out = Returns (RPair (Some (Error (SupabaseError body) body st)) body))"
  using run_response [OF assms] assms(1)
  by (simp add: is_ok_constructed)

lemma sent_response_classification_example:
  "is_ok (this (docstring_world False None)) 200
   \<and> fst (run (answering 200 (PList [])) select_equals (docstring_world False None)
            (Delete [(''id'', AInt 3)])) = Returns (RPair None (PList []))"
proof -
  let ?w = "docstring_world False None"
  let ?t = "answering 200 (PList [])"
  let ?c = "Delete [(''id'', AInt 3)]"
  let ?rq = "\<lparr> req_url = ''http://app-name.supabase.co/posts?id=3'',
               req_headers = [(''apiKey'', ''SUPABASE_API_KEY''),
                              (''Authorization'', ''SUPABASE_API_KEY'')],
               req_verb = ''DELETE'', req_json = None \<rparr>"
  have built: "this ?w =
      (TableClient ''http://app-name.supabase.co'' ''posts'' 0 False)\<lparr>as_url := None\<rparr>"
    by (simp add: docstring_world_def)
  have ran: "run ?t select_equals ?w ?c =
      (fst (run ?t select_equals ?w ?c), snd (run ?t select_equals ?w ?c))"
    by simp
  have sent: "wire (snd (run ?t select_equals ?w ?c)) = wire ?w @ [?rq]"
    by (simp add: delete_op_def send_world docstring_world_def docstring_headers_def TableClient_def deref_def
        str_int_def digit_def)
  have answer: "?t ?rq = Response 200 (PList [])"
    by (simp add: answering_def)
  from sent_response_classification [OF built ran sent answer] show ?thesis
    by simp
qed

text \<open>
  C1. For every operation, \<open>get\<close> included, a response with a status code in 200..299 is a
  success and the operation returns the pair of \<open>None\<close> and the parsed body. \<open>get\<close> does not:
  with a server that answers 200, \<open>await client.get("*")\<close> makes no request and returns the
  coroutine object of \<open>query\<close>, which is not that pair. The other operations do what
  the claim says (\<open>sent_response_classification\<close>).
\<close>

theorem get_success_is_no_pair:
  "fst (run (answering 200 (PList [PDict [(''id'', PInt 1)]])) select_equals
          (docstring_world False None) (Get ''*'')) = Returns RCoroutine
   \<and> fst (run (answering 200 (PList [PDict [(''id'', PInt 1)]])) select_equals
          (docstring_world False None) (Get ''*''))
       \<noteq> Returns (RPair None (PList [PDict [(''id'', PInt 1)]]))
   \<and> wire (snd (run (answering 200 (PList [PDict [(''id'', PInt 1)]])) select_equals
          (docstring_world False None) (Get ''*''))) = []"
  by (simp add: get_def select_def docstring_world_def)

text \<open>
  For a client made by the constructor, when the response to the request of a call has a
  status code outside 200..299: a client constructed with \<open>raise_error=True\<close> raises the
  \<open>SupabaseError\<close> carrying the body, a client constructed with \<open>raise_error=False\<close> returns
  the pair of \<open>Error(error, data, status)\<close> and the body, where \<open>error\<close> is that
  \<open>SupabaseError\<close>, \<open>data\<close> the body and \<open>status\<close> the status code. Again this holds for
  the calls that put a request on the wire; the example is the 404 answer to \<open>delete\<close>.
\<close>

lemma sent_api_error_raised_or_returned:
  assumes "this w = (TableClient api_url table_name hr raise)\<lparr>as_url := u\<rparr>"
    and "run t render w c = (out, w')"
    and "wire w' = wire w @ [rq]"
    and "t rq = Response st body"
    and "\<not> (200 \<le> st \<and> st < 300)"
  shows "(raise \<longrightarrow> out = Raises (SupabaseError body))
       \<and> (\<not> raise \<longrightarrow>
            out = Returns (RPair (Some (Error (SupabaseError body) body st)) body))"
  using run_response [OF assms(1-4)] assms(5)
  by simp

lemma sent_api_error_raised_or_returned_example:
  "fst (run (answering 404 (PDict [(''message'', PStr ''not found'')])) select_equals
          (docstring_world False None) (Delete [(''id'', AInt 3)]))
     = Returns (RPair (Some (Error (SupabaseError (PDict [(''message'', PStr ''not found'')]))
                               (PDict [(''message'', PStr ''not found'')]) 404))
                      (PDict [(''message'', PStr ''not found'')]))
   \<and> fst (run (answering 404 (PDict [(''message'', PStr ''not found'')])) select_equals
          (docstring_world True None) (Delete [(''id'', AInt 3)]))
     = Raises (SupabaseError (PDict [(''message'', PStr ''not found'')]))"
proof -
  let ?body = "PDict [(''message'', PStr ''not found'')]"
  let ?t = "answering 404 ?body"
  let ?c = "Delete [(''id'', AInt 3)]"
  let ?rq = "\<lparr> req_url = ''http://app-name.supabase.co/posts?id=3'',
               req_headers = [(''apiKey'', ''SUPABASE_API_KEY''),
                              (''Authorization'', ''SUPABASE_API_KEY'')],
               req_verb = ''DELETE'', req_json = None \<rparr>"
  have built: "this (docstring_world r None) =
      (TableClient ''http://app-name.supabase.co'' ''posts'' 0 r)\<lparr>as_url := None\<rparr>" for r
    by (simp add: docstring_world_def)
  have ran: "run ?t select_equals (docstring_world r None) ?c =
      (fst (run ?t select_equals (docstring_world r None) ?c),
       snd (run ?t select_equals (docstring_world r None) ?c))" for r
    by simp
  have sent: "wire (snd (run ?t select_equals (docstring_world r None) ?c)) =
      wire (docstring_world r None) @ [?rq]" for r
    by (simp add: delete_op_def send_world docstring_world_def docstring_headers_def TableClient_def deref_def
        str_int_def digit_def)
  have answer: "?t ?rq = Response 404 ?body"
    by (simp add: answering_def)
  have failed: "\<not> (200 \<le> (404::int) \<and> (404::int) < 300)"
    by simp
  from sent_api_error_raised_or_returned [OF built ran sent answer failed, of False]
       sent_api_error_raised_or_returned [OF built ran sent answer failed, of True]
  show ?thesis
    by simp
qed

text \<open>
  C2. For every operation, \<open>get\<close> included, a response with a status code outside 200..299
  makes the call raise \<open>SupabaseError\<close> when \<open>raise_error=True\<close> and return the \<open>Error\<close> pair
  when \<open>raise_error=False\<close>. \<open>get\<close> does neither: with a server that answers 404 and
  \<open>{"message":"not found"}\<close>, \<open>await client.get("*")\<close> returns the coroutine object of
  \<open>query\<close> under both settings, and no request is made. The other operations do
  what the claim says (\<open>sent_api_error_raised_or_returned\<close>).
\<close>

theorem get_failure_neither_raises_nor_returns_error:
  "fst (run (answering 404 (PDict [(''message'', PStr ''not found'')])) select_equals
          (docstring_world True None) (Get ''*'')) = Returns RCoroutine
   \<and> fst (run (answering 404 (PDict [(''message'', PStr ''not found'')])) select_equals
          (docstring_world True None) (Get ''*''))
       \<noteq> Raises (SupabaseError (PDict [(''message'', PStr ''not found'')]))
   \<and> fst (run (answering 404 (PDict [(''message'', PStr ''not found'')])) select_equals
          (docstring_world False None) (Get ''*'')) = Returns RCoroutine
   \<and> fst (run (answering 404 (PDict [(''message'', PStr ''not found'')])) select_equals
          (docstring_world False None) (Get ''*''))
       \<noteq> Returns (RPair (Some (Error (SupabaseError (PDict [(''message'', PStr ''not found'')]))
                                   (PDict [(''message'', PStr ''not found'')]) 404))
                          (PDict [(''message'', PStr ''not found'')]))"
  by (simp add: get_def select_def docstring_world_def)

section \<open>Failures of the connection\<close>

text \<open>
  When the HTTP layer fails to connect for the request of a call, the call raises the
  client's own \<open>ClientConnectorError\<close> with the message of the transport's exception, on
  whatever client: nothing is assumed about \<open>raise_error\<close>, and the outcome is not the
  transport's own exception. This holds for the calls that put a request on the wire.
\<close>

lemma sent_connector_failure_raised:
  assumes "run t render w c = (out, w')"
    and "wire w' = wire w @ [rq]"
    and "t rq = ConnectorFailure msg"
  shows "out = Raises (ClientConnectorError msg)"
  using run_request [OF assms(1,2)] assms(3)
  by simp

lemma sent_connector_failure_raised_example:
  "fst (run (unreachable ''Cannot connect to host app-name.supabase.co:443'') select_equals
          (docstring_world False None)
          (Insert (PList [PDict [(''title'', PStr ''Hello, world!'')]])))
     = Raises (ClientConnectorError ''Cannot connect to host app-name.supabase.co:443'')"
proof -
  let ?t = "unreachable ''Cannot connect to host app-name.supabase.co:443''"
  let ?w = "docstring_world False None"
  let ?c = "Insert (PList [PDict [(''title'', PStr ''Hello, world!'')]])"
  let ?rq = "\<lparr> req_url = ''http://app-name.supabase.co/posts'',
               req_headers = [(''apiKey'', ''SUPABASE_API_KEY''),
                              (''Authorization'', ''SUPABASE_API_KEY''),
                              (''Prefer'', ''return=representation'')],
               req_verb = ''POST'',
               req_json = Some (PList [PDict [(''title'', PStr ''Hello, world!'')]]) \<rparr>"
  have ran: "run ?t select_equals ?w ?c =
      (fst (run ?t select_equals ?w ?c), snd (run ?t select_equals ?w ?c))"
    by simp
  have sent: "wire (snd (run ?t select_equals ?w ?c)) = wire ?w @ [?rq]"
    by (simp add: insert_op_send send_world docstring_world_def docstring_headers_def TableClient_def deref_def)
  have refused: "?t ?rq = ConnectorFailure ''Cannot connect to host app-name.supabase.co:443''"
    by (simp add: unreachable_def)
  from sent_connector_failure_raised [OF ran sent refused] show ?thesis
    by simp
qed

text \<open>
  C5. For every operation, \<open>get\<close> included, a server that cannot be reached makes the call
  raise \<open>ClientConnectorError\<close>. \<open>get\<close> does not: \<open>await client.get("*")\<close> attempts no
  connection, raises nothing and returns the coroutine object of \<open>query\<close>; the failure
  surfaces only when that object is awaited. The other operations do what the claim says
  (\<open>sent_connector_failure_raised\<close>).
\<close>

theorem get_unreachable_raises_nothing:
  "fst (run (unreachable ''Cannot connect to host app-name.supabase.co:443'') select_equals
          (docstring_world True None) (Get ''*'')) = Returns RCoroutine
   \<and> fst (run (unreachable ''Cannot connect to host app-name.supabase.co:443'') select_equals
          (docstring_world True None) (Get ''*''))
       \<noteq> Raises (ClientConnectorError ''Cannot connect to host app-name.supabase.co:443'')
   \<and> wire (snd (run (unreachable ''Cannot connect to host app-name.supabase.co:443'')
          select_equals (docstring_world True None) (Get ''*''))) = []"
  by (simp add: get_def select_def docstring_world_def)

text \<open>Awaiting the coroutine that \<open>get\<close> returned is where the connection fails.\<close>

lemma get_then_resume_unreachable:
  "fst (resume (unreachable ''Cannot connect to host app-name.supabase.co:443'')
          (snd (get select_equals (docstring_world True None) ''*'')))
     = Raises (ClientConnectorError ''Cannot connect to host app-name.supabase.co:443'')"
  by (simp add: resume_def query_def get_def select_def docstring_world_def select_equals_def
      send_outcome unreachable_def)

section \<open>Validation in insert\<close>

text \<open>
  C3, as stated: \<open>insert(data)\<close> raises \<open>UnexpectedValueTypeError\<close> if and only if \<open>data\<close> is
  not a sequence. The test in the source is \<open>type(data) is not list\<close>: a tuple of rows is a
  sequence, and \<open>insert\<close> raises on it.
\<close>

theorem insert_tuple_counterexample:
  "\<not> (fst (insert_op (answering 201 (PList [])) (docstring_world False None)
              (PTuple [PDict [(''title'', PStr ''Hello, world!'')]]))
          = Raises (UnexpectedValueTypeError ''Expected a list for: `value`'')
        \<longleftrightarrow> \<not> spec_is_sequence (PTuple [PDict [(''title'', PStr ''Hello, world!'')]]))"
  by (simp add: insert_op_def)

text \<open>
  C3, amended: \<open>insert(data)\<close> raises \<open>UnexpectedValueTypeError\<close> if and only if \<open>data\<close> is
  not a list. When it raises, nothing has been handed to the HTTP layer and nothing has
  changed, whatever the client's \<open>raise_error\<close>; when \<open>data\<close> is a list, exactly one request
  is handed over, a POST to the base URL with \<open>data\<close> as its body.
\<close>

theorem insert_validation:
  "(fst (insert_op t w data) = Raises (UnexpectedValueTypeError ''Expected a list for: `value`'')
      \<longleftrightarrow> \<not> is_list data)
   \<and> (\<not> is_list data \<longrightarrow> snd (insert_op t w data) = w)
   \<and> (is_list data \<longrightarrow>
        wire (snd (insert_op t w data)) = wire w @
          [\<lparr> req_url = base_url (this w),
             req_headers = prefer_representation (deref (objs w) (headers (this w))),
             req_verb = ''POST'', req_json = Some data \<rparr>])"
proof (cases "is_list data")
  case True
  then show ?thesis
    by (simp add: insert_op_send send_world send_outcome split: reply.split sum.split)
      (simp add: error_of_def Let_def)
next
  case False
  then show ?thesis
    by (simp add: insert_op_def)
qed

theorem insert_validation_witness:
  "fst (insert_op (answering 201 (PList [])) (docstring_world True None)
          (PDict [(''title'', PStr ''Hello, world!'')]))
     = Raises (UnexpectedValueTypeError ''Expected a list for: `value`'')
   \<and> snd (insert_op (answering 201 (PList [])) (docstring_world True None)
          (PDict [(''title'', PStr ''Hello, world!'')]))
     = docstring_world True None
   \<and> wire (snd (insert_op (answering 201 (PList [])) (docstring_world True None)
          (PList [PDict [(''title'', PStr ''Hello, world!'')]])))
     = [\<lparr> req_url = ''http://app-name.supabase.co/posts'',
          req_headers = [(''apiKey'', ''SUPABASE_API_KEY''),
                         (''Authorization'', ''SUPABASE_API_KEY''),
                         (''Prefer'', ''return=representation'')],
          req_verb = ''POST'',
          req_json = Some (PList [PDict [(''title'', PStr ''Hello, world!'')]]) \<rparr>]"
proof -
  have mapping: "\<not> is_list (PDict [(''title'', PStr ''Hello, world!'')])"
    by simp
  have rows: "is_list (PList [PDict [(''title'', PStr ''Hello, world!'')]])"
    by simp
  from insert_validation [of "answering 201 (PList [])" "docstring_world True None"
         "PDict [(''title'', PStr ''Hello, world!'')]"]
       insert_validation [of "answering 201 (PList [])" "docstring_world True None"
         "PList [PDict [(''title'', PStr ''Hello, world!'')]]"]
       mapping rows
  show ?thesis
    by (simp add: docstring_world_def docstring_headers_def TableClient_def deref_def)
qed

section \<open>The URL of delete and update\<close>

text \<open>
  The loop of \<open>delete\<close> appends one term \<open>k=v&\<close> per item; the slice \<open>endpoint[:-1]\<close>
  then drops the last character.
\<close>

lemma foldl_terms:
  "foldl (\<lambda>e (k, v). e @ (k @ ''='' @ str v @ ''&'')) acc target
     = acc @ concat (map (\<lambda>(k, v). k @ ''='' @ str v @ ''&'') target)"
  by (induction target arbitrary: acc) auto

lemma butlast_terms:
  "target \<noteq> [] \<Longrightarrow>
   butlast (concat (map (\<lambda>(k, v). k @ ''='' @ str v @ ''&'') target))
     = join ''&'' (map (\<lambda>(k, v). k @ ''='' @ str v) target)"
proof (induction target rule: induct_list012)
  case 1
  then show ?case by simp
next
  case (2 x)
  then show ?case by (simp add: split_beta butlast_append)
next
  case (3 x y zs)
  then show ?case by (simp add: split_beta butlast_append)
qed

text \<open>
  C7. For every non-empty mapping \<open>target\<close>, \<open>delete(target)\<close> requests the base URL,
  a \<open>?\<close>, and the terms \<open>key=value\<close> joined by \<open>&\<close>, with no \<open>&\<close> after the last term; the
  request is a DELETE with the stored headers and no body. For \<open>delete({"id": 3})\<close> the URL
  ends in \<open>?id=3\<close>.
\<close>

theorem delete_url:
  assumes "target \<noteq> []"
  shows "wire (snd (delete_op t w target)) = wire w @
     [\<lparr> req_url = base_url (this w) @ ''?'' @ join ''&'' (map (\<lambda>(k, v). k @ ''='' @ str v) target),
        req_headers = deref (objs w) (headers (this w)),
        req_verb = ''DELETE'', req_json = None \<rparr>]"
proof -
  let ?terms = "concat (map (\<lambda>(k, v). k @ ''='' @ str v @ ''&'') target)"
  let ?start = "base_url (this w) @ ''?''"
  from assms have nonempty: "?terms \<noteq> []"
    by (cases target) (auto simp: split_beta)
  have "butlast (foldl (\<lambda>e (k, v). e @ (k @ ''='' @ str v @ ''&'')) ?start target)
      = butlast (?start @ ?terms)"
    by (simp only: foldl_terms)
  also from nonempty have "\<dots> = ?start @ butlast ?terms"
    by (simp only: butlast_append if_False)
  also have "\<dots> = ?start @ join ''&'' (map (\<lambda>(k, v). k @ ''='' @ str v) target)"
    by (simp only: butlast_terms [OF assms])
  finally show ?thesis
    by (simp add: delete_op_def send_world Let_def)
qed

theorem delete_url_witness:
  "map req_url (wire (snd (delete_op (answering 200 (PList [])) (docstring_world True None)
      [(''id'', AInt 3)]))) = [''http://app-name.supabase.co/posts?id=3'']"
proof -
  have nonempty: "[(''id'', AInt 3)] \<noteq> []"
    by simp
  from delete_url [OF nonempty, of "answering 200 (PList [])" "docstring_world True None"]
  show ?thesis
    by (simp add: docstring_world_def docstring_headers_def TableClient_def str_int_def digit_def)
qed

text \<open>
  C9. \<open>delete({})\<close>: the loop adds nothing, the slice removes the \<open>?\<close>, and the DELETE
  request goes to the base URL itself, the endpoint of the whole table.
\<close>

theorem delete_empty_filter:
  "wire (snd (delete_op t w [])) = wire w @
     [\<lparr> req_url = base_url (this w),
        req_headers = deref (objs w) (headers (this w)),
        req_verb = ''DELETE'', req_json = None \<rparr>]"
  by (simp add: delete_op_def send_world)

text \<open>
  C10. \<open>update({}, data)\<close>: \<open>urlencode\<close> of the empty mapping is the empty string and the
  \<open>?\<close> is added in any case, so the PATCH request goes to the base URL followed by a
  \<open>?\<close> and nothing else.
\<close>

theorem update_empty_target:
  "wire (snd (update_op t w [] data)) = wire w @
     [\<lparr> req_url = base_url (this w) @ ''?'',
        req_headers = prefer_representation (deref (objs w) (headers (this w))),
        req_verb = ''PATCH'', req_json = Some data \<rparr>]"
  by (simp add: update_op_send send_world urlencode_def)

text \<open>
  C4. The terms that \<open>delete\<close> puts into the URL are percent-encoded: a value containing
  \<open>&\<close> or \<open>=\<close> never appears literally. \<open>delete\<close> formats key and value into the URL as
  they are: for \<open>delete({"title": "a&b=c"})\<close> the URL ends in \<open>?title=a&b=c\<close>.
\<close>

theorem delete_raw_ampersand:
  "map req_url (wire (snd (delete_op (answering 200 (PList [])) (docstring_world True None)
      [(''title'', AStr ''a&b=c'')]))) = [''http://app-name.supabase.co/posts?title=a&b=c'']"
  by (simp add: delete_op_def send_world docstring_world_def docstring_headers_def TableClient_def)

text \<open>
  \<open>update\<close> passes the same mapping through \<open>urlencode\<close>, and what \<open>quote_plus\<close> yields
  contains neither \<open>&\<close> nor \<open>=\<close>.
\<close>

lemma update_encodes_ampersand:
  "map req_url (wire (snd (update_op (answering 200 (PList [])) (docstring_world True None)
      [(''title'', AStr ''a&b=c'')] data))) = [''http://app-name.supabase.co/posts?title=a%26b%3Dc'']"
  by (simp add: update_op_send send_world docstring_world_def docstring_headers_def TableClient_def urlencode_def
      quote_plus_def quote_byte_def always_safe_def hexdigit_def)

lemma hexdigit_safe:
  assumes "n < 16"
  shows "always_safe (hexdigit n)"
proof -
  have "hexdigit n \<in> set ''0123456789ABCDEF''"
    unfolding hexdigit_def using assms by (intro nth_mem) simp
  then show ?thesis
    unfolding always_safe_def by (elim rev_subsetD) simp
qed

lemma of_char_div_16: "(of_char c :: nat) div 16 < 16"
proof -
  have "(of_char c :: nat) mod 256 < 256"
    by simp
  then have "(of_char c :: nat) < 256"
    by (simp only: of_char_mod_256)
  then show ?thesis by presburger
qed

lemma quote_byte_chars:
  assumes "x \<in> set (quote_byte c)"
  shows "always_safe x \<or> x = CHR ''+'' \<or> x = CHR ''%''"
proof -
  have "always_safe (hexdigit ((of_char c :: nat) div 16))"
    by (rule hexdigit_safe) (rule of_char_div_16)
  moreover have "always_safe (hexdigit ((of_char c :: nat) mod 16))"
    by (rule hexdigit_safe) simp
  ultimately show ?thesis
    using assms by (auto simp add: quote_byte_def split: if_splits)
qed

lemma quote_plus_chars:
  "x \<in> set (quote_plus s) \<Longrightarrow> always_safe x \<or> x = CHR ''+'' \<or> x = CHR ''%''"
  by (auto simp add: quote_plus_def dest: quote_byte_chars)

lemma quote_plus_no_separator:
  "CHR ''&'' \<notin> set (quote_plus s) \<and> CHR ''='' \<notin> set (quote_plus s)"
proof -
  have "\<not> always_safe CHR ''&''" and "\<not> always_safe CHR ''=''"
    by (simp_all add: always_safe_def)
  then show ?thesis
    by (auto dest: quote_plus_chars)
qed

section \<open>Headers and the stored configuration\<close>

text \<open>
  C6. A call of any operation leaves the client's configuration as it was: the reference
  to the header dictionary, the contents of that dictionary (and of every dictionary
  allocated before the call), the base URL and \<open>raise_error\<close>. \<open>update\<close>, and \<open>insert\<close> of a
  list, send as headers the stored headers with \<open>Prefer: return=representation\<close> set; that
  dictionary is a new object, the copy, allocated by the call. The stored header
  dictionary is an allocated object.
\<close>

theorem stored_configuration_unchanged:
  assumes "headers (this w) < length (objs w)"
    and "run t render w c = (out, w')"
  shows "headers (this w') = headers (this w)
       \<and> deref (objs w') (headers (this w')) = deref (objs w) (headers (this w))
       \<and> take (length (objs w)) (objs w') = objs w
       \<and> base_url (this w') = base_url (this w)
       \<and> raise_error (this w') = raise_error (this w)
       \<and> (c = Update target data \<or> c = Insert (PList rows) \<longrightarrow>
            map req_headers (drop (length (wire w)) (wire w'))
              = [prefer_representation (deref (objs w) (headers (this w)))]
            \<and> objs w' = objs w @ [prefer_representation (deref (objs w) (headers (this w)))])"
proof -
  from assms(2) have w': "w' = snd (run t render w c)"
    by simp
  show ?thesis
  proof (cases c)
    case (Get row)
    with w' show ?thesis by (simp add: get_def select_def)
  next
    case (Insert d)
    show ?thesis
    proof (cases "is_list d")
      case True
      with w' Insert assms(1) show ?thesis
        by (simp add: insert_op_send send_world deref_def nth_append)
    next
      case False
      with w' Insert show ?thesis
        by (auto simp add: insert_op_def)
    qed
  next
    case (Update f d)
    with w' assms(1) show ?thesis
      by (simp add: update_op_send send_world deref_def nth_append)
  next
    case (Delete f)
    with w' show ?thesis by (simp add: delete_op_def send_world Let_def)
  next
    case (CustomQuery s)
    with w' show ?thesis by (simp add: customqeury_def send_world Let_def)
  next
    case Query
    with w' show ?thesis by (simp add: query_def send_world split: option.split)
  qed
qed


theorem stored_configuration_unchanged_witness:
  "objs (snd (run (answering 200 (PList [])) select_equals (docstring_world True None)
           (Update [(''id'', AInt 1)] (PDict [(''title'', PStr ''new title'')]))))
     = [docstring_headers, prefer_representation docstring_headers]
   \<and> map req_headers (wire (snd (run (answering 200 (PList [])) select_equals
           (docstring_world True None)
           (Update [(''id'', AInt 1)] (PDict [(''title'', PStr ''new title'')])))))
     = [prefer_representation docstring_headers]
   \<and> headers (this (snd (run (answering 200 (PList [])) select_equals
           (docstring_world True None)
           (Update [(''id'', AInt 1)] (PDict [(''title'', PStr ''new title'')]))))) = 0"
proof -
  let ?t = "answering 200 (PList [])"
  let ?w = "docstring_world True None"
  let ?c = "Update [(''id'', AInt 1)] (PDict [(''title'', PStr ''new title'')])"
  have allocated: "headers (this ?w) < length (objs ?w)"
    by (simp add: docstring_world_def docstring_headers_def TableClient_def)
  have ran: "run ?t select_equals ?w ?c =
      (fst (run ?t select_equals ?w ?c), snd (run ?t select_equals ?w ?c))"
    by simp
  from stored_configuration_unchanged [OF allocated ran,
         of "[(''id'', AInt 1)]" "PDict [(''title'', PStr ''new title'')]"]
  show ?thesis
    by (simp add: docstring_world_def docstring_headers_def TableClient_def deref_def)
qed

section \<open>get\<close>

text \<open>
  C8. When the server answers 200 with the body \<open>{"id":1,"title":"hi"}\<close>, awaiting \<open>get\<close>
  yields the pair of \<open>None\<close> and that body. In the source \<open>get\<close> returns
  \<open>self.select(row).query()\<close> without awaiting it: the value of \<open>await client.get("*")\<close> is
  the coroutine object, not the pair, and no request has been made.
\<close>

theorem get_returns_coroutine:
  "fst (get select_equals (docstring_world True None) ''*'') = Returns RCoroutine
   \<and> fst (get select_equals (docstring_world True None) ''*'')
       \<noteq> Returns (RPair None (PDict [(''id'', PInt 1), (''title'', PStr ''hi'')]))
   \<and> wire (snd (get select_equals (docstring_world True None) ''*'')) = []"
  by (simp add: get_def select_def docstring_world_def)

text \<open>Awaiting that coroutine in turn makes the request and yields the pair.\<close>

lemma get_then_resume:
  "resume (answering 200 (PDict [(''id'', PInt 1), (''title'', PStr ''hi'')]))
     (snd (get select_equals (docstring_world True None) ''*''))
   = (Returns (RPair None (PDict [(''id'', PInt 1), (''title'', PStr ''hi'')])),
      (docstring_world True (Some ''http://app-name.supabase.co/posts?select=*''))
        \<lparr>wire := [\<lparr> req_url = ''http://app-name.supabase.co/posts?select=*'',
                    req_headers = [(''apiKey'', ''SUPABASE_API_KEY''),
                                   (''Authorization'', ''SUPABASE_API_KEY'')],
                    req_verb = ''GET'', req_json = None \<rparr>]\<rparr>)"
  by (simp add: resume_def query_def get_def select_def docstring_world_def docstring_headers_def select_equals_def
      send_def answering_def error_of_def is_ok_def TableClient_def deref_def Let_def
      del: upto_rec_numeral)

end
